theory Spec2Isabelle
  imports Complex_Main "HOL-Library.Sublist" "HOL-Library.List_Lexorder" "HOL-Library.Char_ord"
begin

section \<open>The FinGuard dashboard component (frontend/frontend/src/App.js)\<close>

text \<open>
  The repository is one React component, \<^verbatim>\<open>FinGuardDashboard\<close>. Its data are two
  object literals held in \<^verbatim>\<open>useState\<close> cells without setters (the portfolio and the
  audit log), four further state cells (active tab, the rebalancing flag, the modal
  flag, the rebalance result), one derived list (\<^verbatim>\<open>driftAlerts\<close>) and four event
  handlers. JavaScript numbers are modelled as the exact rationals their decimal
  literals denote; the only comparisons the component makes are against the exactly
  representable constants \<open>2.5\<close>, \<open>1\<close> and \<open>0\<close>. \<^verbatim>\<open>NaN\<close> and the infinities do not
  occur in the data and are not modelled.
\<close>

subsection \<open>Data model\<close>

text \<open>An element of \<^verbatim>\<open>portfolio.holdings\<close>.\<close>

record holding =
  symbol :: string
  name :: string
  qty :: rat
  price :: rat
  "value" :: rat
  allocation :: rat
  target :: rat
  drift :: rat
  category :: string

text \<open>The objects \<^verbatim>\<open>portfolio.target\<close> and \<^verbatim>\<open>portfolio.current\<close>.\<close>

record allocation_map =
  stocks :: rat
  crypto :: rat
  bonds :: rat
  etfs :: rat

record portfolio_t =
  totalValue :: rat
  target_p :: allocation_map
  current :: allocation_map
  holdings :: "holding list"

text \<open>An element of the \<^verbatim>\<open>trades\<close> array of an audit entry.\<close>

record trade =
  action_t :: string
  symbol_t :: string
  amount :: rat
  value_t :: rat

record impact_t =
  riskReduction :: string
  expectedReturn :: string
  sharpeImprovement :: string

text \<open>An element of \<^verbatim>\<open>auditLog\<close>.\<close>

record audit_entry =
  id_e :: string
  timestamp :: string
  action :: string
  reason :: string
  aiConfidence :: rat
  trades :: "trade list"
  status :: string
  impact :: impact_t

text \<open>The object passed to \<^verbatim>\<open>setRebalanceResult\<close>.\<close>

record rebalance_result =
  trades_r :: "trade list"
  impact_r :: impact_t
  confidence :: rat

text \<open>
  The six \<^verbatim>\<open>useState\<close> cells of the component. \<open>pendingTimeouts\<close> is not a cell of
  the component: it counts the callbacks that \<^verbatim>\<open>setTimeout\<close> has scheduled and the
  browser has not run yet.
\<close>

record ui_state =
  activeTab :: string
  isRebalancing :: bool
  showRebalanceModal :: bool
  rebalanceResult :: "rebalance_result option"
  portfolio :: portfolio_t
  auditLog :: "audit_entry list"
  pendingTimeouts :: nat

text \<open>Reading a property of \<^verbatim>\<open>undefined\<close> throws.\<close>

datatype js_error = TypeError

text \<open>
  An audit entry as the object it is: the own properties of the literal, by name, in the
  order they are written.
\<close>

datatype js_value = JsNumber rat | JsString string | JsTrades "trade list" | JsImpact impact_t

definition ownProperties :: "audit_entry \<Rightarrow> (string \<times> js_value) list" where
  "ownProperties e =
     [(''id'', JsString (id_e e)), (''timestamp'', JsString (timestamp e)),
      (''action'', JsString (action e)), (''reason'', JsString (reason e)),
      (''aiConfidence'', JsNumber (aiConfidence e)), (''trades'', JsTrades (trades e)),
      (''status'', JsString (status e)), (''impact'', JsImpact (impact e))]"

subsection \<open>The literals\<close>

definition aapl :: holding where
  "aapl = \<lparr>symbol = ''AAPL'', name = ''Apple Inc.'', qty = 50, price = 175.20,
     value = 8760, allocation = 7.0, target = 10, drift = - 3.0, category = ''stocks''\<rparr>"

definition msft :: holding where
  "msft = \<lparr>symbol = ''MSFT'', name = ''Microsoft'', qty = 30, price = 380.50,
     value = 11415, allocation = 9.1, target = 10, drift = - 0.9, category = ''stocks''\<rparr>"

definition googl :: holding where
  "googl = \<lparr>symbol = ''GOOGL'', name = ''Google'', qty = 20, price = 142.30,
     value = 2846, allocation = 2.3, target = 5, drift = - 2.7, category = ''stocks''\<rparr>"

definition btc :: holding where
  "btc = \<lparr>symbol = ''BTC'', name = ''Bitcoin'', qty = 0.5, price = 62000,
     value = 31000, allocation = 24.7, target = 15, drift = 9.7, category = ''crypto''\<rparr>"

definition eth :: holding where
  "eth = \<lparr>symbol = ''ETH'', name = ''Ethereum'', qty = 2, price = 2200,
     value = 4400, allocation = 3.5, target = 5, drift = - 1.5, category = ''crypto''\<rparr>"

definition vbmfx :: holding where
  "vbmfx = \<lparr>symbol = ''VBMFX'', name = ''Vanguard Bonds'', qty = 250, price = 110.20,
     value = 27550, allocation = 22.0, target = 25, drift = - 3.0, category = ''bonds''\<rparr>"

definition spy :: holding where
  "spy = \<lparr>symbol = ''SPY'', name = ''S&P 500 ETF'', qty = 40, price = 445.50,
     value = 17820, allocation = 14.2, target = 15, drift = - 0.8, category = ''etfs''\<rparr>"

definition portfolio0 :: portfolio_t where
  "portfolio0 = \<lparr>totalValue = 125420.50,
     target_p = \<lparr>stocks = 40, crypto = 20, bonds = 25, etfs = 15\<rparr>,
     current = \<lparr>stocks = 35, crypto = 28, bonds = 22, etfs = 15\<rparr>,
     holdings = [aapl, msft, googl, btc, eth, vbmfx, spy]\<rparr>"

definition auditEntry1 :: audit_entry where
  "auditEntry1 = \<lparr>id_e = ''AL-20251018-001'', timestamp = ''2025-10-18T09:15:23Z'',
     action = ''Reduce BTC allocation by 9.7%'',
     reason = ''Bitcoin allocation exceeded target by 9.7%. Volatility increased by 32% over past 7 days. Risk-adjusted return optimization suggests reallocation to lower-volatility assets.'',
     aiConfidence = 0.94,
     trades = [\<lparr>action_t = ''SELL'', symbol_t = ''BTC'', amount = 0.12, value_t = 7440\<rparr>,
               \<lparr>action_t = ''BUY'', symbol_t = ''AAPL'', amount = 25, value_t = 4380\<rparr>,
               \<lparr>action_t = ''BUY'', symbol_t = ''VBMFX'', amount = 28, value_t = 3085\<rparr>],
     status = ''pending'',
     impact = \<lparr>riskReduction = ''12.3%'', expectedReturn = ''+2.1% annualized'',
                sharpeImprovement = ''+0.15''\<rparr>\<rparr>"

definition auditEntry2 :: audit_entry where
  "auditEntry2 = \<lparr>id_e = ''AL-20251015-002'', timestamp = ''2025-10-15T14:22:10Z'',
     action = ''Rebalance stocks allocation'',
     reason = ''Market correction detected. Tech sector down 5.2%. Portfolio stocks allocation fell below target threshold (35% vs 40% target).'',
     aiConfidence = 0.88,
     trades = [\<lparr>action_t = ''BUY'', symbol_t = ''GOOGL'', amount = 15, value_t = 2134\<rparr>,
               \<lparr>action_t = ''SELL'', symbol_t = ''VBMFX'', amount = 20, value_t = 2204\<rparr>],
     status = ''executed'',
     impact = \<lparr>riskReduction = ''3.1%'', expectedReturn = ''+1.4% annualized'',
                sharpeImprovement = ''+0.08''\<rparr>\<rparr>"

definition auditLog0 :: "audit_entry list" where
  "auditLog0 = [auditEntry1, auditEntry2]"

text \<open>The state of the component when it is mounted.\<close>

definition initialState :: ui_state where
  "initialState = \<lparr>activeTab = ''dashboard'', isRebalancing = False,
     showRebalanceModal = False, rebalanceResult = None,
     portfolio = portfolio0, auditLog = auditLog0, pendingTimeouts = 0\<rparr>"

subsection \<open>Derived values of a render\<close>

text \<open>
  \<^verbatim>\<open>const driftAlerts = portfolio.holdings.filter(h => Math.abs(h.drift) > 2.5);\<close>
\<close>

definition driftAlerts :: "portfolio_t \<Rightarrow> holding list" where
  "driftAlerts p = filter (\<lambda>h. \<bar>drift h\<bar> > 2.5) (holdings p)"

text \<open>The condition of the alert banner, \<^verbatim>\<open>driftAlerts.length > 0\<close>.\<close>

definition driftDetected :: "portfolio_t \<Rightarrow> bool" where
  "driftDetected p = (length (driftAlerts p) > 0)"

text \<open>
  The banner is part of the dashboard tab:
  \<^verbatim>\<open>activeTab === 'dashboard' && ( ... driftAlerts.length > 0 && ( ... ) ... )\<close>.
\<close>

definition alertBannerShown :: "ui_state \<Rightarrow> bool" where
  "alertBannerShown s = (activeTab s = ''dashboard'' \<and> driftDetected (portfolio s))"

text \<open>
  The sentence of the banner, as the values spliced into it: the number of alerts, the
  symbol (the literal text \<^verbatim>\<open>BTC\<close>), the direction
  \<^verbatim>\<open>driftAlerts[0].drift > 0 ? 'over' : 'under'\<close> and the magnitude
  \<^verbatim>\<open>Math.abs(driftAlerts[0].drift)\<close> (before \<^verbatim>\<open>toFixed(1)\<close>). It is rendered only
  when \<^verbatim>\<open>driftAlerts\<close> is not empty.
\<close>

definition bannerSentence :: "portfolio_t \<Rightarrow> (nat \<times> string \<times> string \<times> rat) option" where
  "bannerSentence p =
     (case driftAlerts p of
        [] \<Rightarrow> None
      | h # _ \<Rightarrow> Some (length (driftAlerts p), ''BTC'',
                       if drift h > 0 then ''over'' else ''under'', \<bar>drift h\<bar>))"

subsection \<open>Event handlers\<close>

text \<open>
  \<^verbatim>\<open>handleRebalance\<close> sets the flag and schedules the callback; the callback is
  \<open>rebalanceTimeout\<close>. \<^verbatim>\<open>auditLog[0]\<close> is \<^verbatim>\<open>undefined\<close> on an empty array, and reading
  \<^verbatim>\<open>.trades\<close> of it throws. The result shares the trades array and the impact object
  with the audit entry; nothing in the component writes to either, so the model holds
  them by value.
\<close>

definition handleRebalance :: "ui_state \<Rightarrow> ui_state" where
  "handleRebalance s = s\<lparr>isRebalancing := True, pendingTimeouts := Suc (pendingTimeouts s)\<rparr>"

definition rebalanceTimeout :: "ui_state \<Rightarrow> js_error + ui_state" where
  "rebalanceTimeout s =
     (case auditLog s of
        [] \<Rightarrow> Inl TypeError
      | e # _ \<Rightarrow>
          Inr (s\<lparr>isRebalancing := False,
                 rebalanceResult := Some \<lparr>trades_r = trades e, impact_r = impact e,
                                          confidence = aiConfidence e\<rparr>,
                 showRebalanceModal := True\<rparr>))"

text \<open>The tab buttons: \<^verbatim>\<open>onClick={() => setActiveTab(tab)}\<close>.\<close>

definition setActiveTab :: "string \<Rightarrow> ui_state \<Rightarrow> ui_state" where
  "setActiveTab tab s = s\<lparr>activeTab := tab\<rparr>"

text \<open>The button Review Later: \<^verbatim>\<open>onClick={() => setShowRebalanceModal(false)}\<close>.\<close>

definition reviewLater :: "ui_state \<Rightarrow> ui_state" where
  "reviewLater s = s\<lparr>showRebalanceModal := False\<rparr>"

text \<open>
  The button Execute Rebalance:
  \<^verbatim>\<open>onClick={() => { setShowRebalanceModal(false); setActiveTab('audit'); }}\<close>.
\<close>

definition executeRebalance :: "ui_state \<Rightarrow> ui_state" where
  "executeRebalance s = s\<lparr>showRebalanceModal := False, activeTab := ''audit''\<rparr>"

subsection \<open>The component as a transition system\<close>

text \<open>
  What a user, or the timer, can do. A control acts only while it is rendered: the tab
  buttons always (for the three tabs of the navigation bar), Rebalance Now inside the
  alert banner and unless \<^verbatim>\<open>disabled={isRebalancing}\<close>, the two modal buttons while
  \<^verbatim>\<open>showRebalanceModal && rebalanceResult\<close>. The timer fires only when a callback is
  pending. An uncaught exception ends the run.
\<close>

datatype ui_action =
  ClickTab string
  | ClickRebalanceNow
  | TimerFires
  | ClickReviewLater
  | ClickExecuteRebalance

definition modalShown :: "ui_state \<Rightarrow> bool" where
  "modalShown s = (showRebalanceModal s \<and> rebalanceResult s \<noteq> None)"

fun step :: "ui_action \<Rightarrow> ui_state \<Rightarrow> js_error + ui_state" where
  "step (ClickTab tab) s =
     Inr (if tab \<in> set [''dashboard'', ''audit'', ''settings''] then setActiveTab tab s else s)"
| "step ClickRebalanceNow s =
     Inr (if alertBannerShown s \<and> \<not> isRebalancing s then handleRebalance s else s)"
| "step TimerFires s =
     (if pendingTimeouts s = 0 then Inr s
      else rebalanceTimeout (s\<lparr>pendingTimeouts := pendingTimeouts s - 1\<rparr>))"
| "step ClickReviewLater s = Inr (if modalShown s then reviewLater s else s)"
| "step ClickExecuteRebalance s = Inr (if modalShown s then executeRebalance s else s)"

fun run :: "ui_action list \<Rightarrow> ui_state \<Rightarrow> js_error + ui_state" where
  "run [] s = Inr s"
| "run (a # as) s = (case step a s of Inl e \<Rightarrow> Inl e | Inr s' \<Rightarrow> run as s')"

text \<open>
  One run of the rebalance action: \<^verbatim>\<open>handleRebalance\<close> and, 2500 ms later, its callback.
  The result a caller sees is the \<^verbatim>\<open>rebalanceResult\<close> cell, or the exception.
\<close>

definition rebalanceRun :: "ui_state \<Rightarrow> js_error + ui_state" where
  "rebalanceRun s = step TimerFires (handleRebalance s)"

definition rebalanceOutcome :: "ui_state \<Rightarrow> js_error + rebalance_result option" where
  "rebalanceOutcome s =
     (case rebalanceRun s of Inl e \<Rightarrow> Inl e | Inr s' \<Rightarrow> Inr (rebalanceResult s'))"

subsection \<open>Quantities of the specification\<close>

text \<open>
  The component computes none of the following; they are the sums the specification
  speaks of, taken over the component's data.
\<close>

text \<open>The ordering the specification asks of the violations: descending \<open>|drift|\<close>.\<close>

definition sortedByAbsDriftDesc :: "holding list \<Rightarrow> bool" where
  "sortedByAbsDriftDesc hs = sorted_wrt (\<lambda>a b. \<bar>drift a\<bar> \<ge> \<bar>drift b\<bar>) hs"

text \<open>
  The same ordering with the specification's tie-break: holdings of equal \<open>|drift|\<close> in
  ascending order of their symbols (the symbols are ASCII, where the lexicographic order
  of the characters is JavaScript's string order).
\<close>

definition sortedByAbsDriftThenSymbol :: "holding list \<Rightarrow> bool" where
  "sortedByAbsDriftThenSymbol hs =
     sorted_wrt (\<lambda>a b. \<bar>drift a\<bar> > \<bar>drift b\<bar>
        \<or> (\<bar>drift a\<bar> = \<bar>drift b\<bar> \<and> symbol a \<le> symbol b)) hs"

text \<open>The sum of the \<^verbatim>\<open>value\<close> fields of the holdings.\<close>

definition holdingsValue :: "portfolio_t \<Rightarrow> rat" where
  "holdingsValue p = sum_list (map value (holdings p))"

text \<open>The sum of the \<^verbatim>\<open>value\<close> fields of the holdings of one category.\<close>

definition categoryValue :: "string \<Rightarrow> portfolio_t \<Rightarrow> rat" where
  "categoryValue c p = sum_list (map value (filter (\<lambda>h. category h = c) (holdings p)))"

text \<open>
  The specification's current allocation of a category, in percent:
  sum(asset values in category) / total value, and 0 for a portfolio of total value 0.
\<close>

definition spec_currentAllocation :: "string \<Rightarrow> portfolio_t \<Rightarrow> rat" where
  "spec_currentAllocation c p =
     (if totalValue p = 0 then 0 else categoryValue c p / totalValue p * 100)"

text \<open>The specification's sum(BUY values) - sum(SELL values) of a trade list.\<close>

definition netCash :: "trade list \<Rightarrow> rat" where
  "netCash ts = sum_list (map value_t (filter (\<lambda>t. action_t t = ''BUY'') ts))
              - sum_list (map value_t (filter (\<lambda>t. action_t t = ''SELL'') ts))"

text \<open>
  Being within a cash-drag tolerance. The component configures no tolerance, so it is a
  parameter.
\<close>

definition withinCashDrag :: "rat \<Rightarrow> trade list \<Rightarrow> bool" where
  "withinCashDrag tol ts = (\<bar>netCash ts\<bar> \<le> tol)"

subsection \<open>A further state\<close>

text \<open>
  The state in which the modal shows the plan taken from the pending entry
  AL-20251018-001: the initial state after Rebalance Now and its callback.
\<close>

definition planReadyState :: ui_state where
  "planReadyState = initialState\<lparr>showRebalanceModal := True,
     rebalanceResult := Some \<lparr>trades_r = trades auditEntry1, impact_r = impact auditEntry1,
                              confidence = aiConfidence auditEntry1\<rparr>\<rparr>"

lemmas hardcoded_holdings =
  portfolio0_def aapl_def msft_def googl_def btc_def eth_def vbmfx_def spy_def

section \<open>Drift alerts\<close>

text \<open>
  C1. For the hardcoded portfolio the drift condition holds, but the first entry of
  \<^verbatim>\<open>driftAlerts\<close> is AAPL (drift \<open>-3.0\<close>), not BTC: the list is AAPL, GOOGL, BTC,
  VBMFX, in the order of the holdings. The banner, whose text names BTC, therefore
  reports the direction and magnitude of AAPL's drift: ``under'', \<open>3.0\<close>.
\<close>

theorem driftAlerts_hardcoded:
  "driftDetected portfolio0
   \<and> driftAlerts portfolio0 = [aapl, googl, btc, vbmfx]
   \<and> map symbol (driftAlerts portfolio0) = [''AAPL'', ''GOOGL'', ''BTC'', ''VBMFX'']
   \<and> bannerSentence portfolio0 = Some (4, ''BTC'', ''under'', 3)
   \<and> drift btc = 9.7"
  by (simp add: driftDetected_def driftAlerts_def bannerSentence_def hardcoded_holdings)

text \<open>
  C2, as stated, fails: the threshold is the literal \<open>2.5\<close>, not an input. With the
  hardcoded portfolio and a threshold of 10 no holding has \<open>|drift| > 10\<close> (the largest
  is BTC's 9.7), yet the drift condition of the component holds.
\<close>

theorem drift_threshold_counterexample:
  "\<not> (\<forall>p thr. driftDetected p \<longleftrightarrow> (\<exists>h \<in> set (holdings p). \<bar>drift h\<bar> > thr))"
proof
  assume a: "\<forall>p thr. driftDetected p \<longleftrightarrow> (\<exists>h \<in> set (holdings p). \<bar>drift h\<bar> > thr)"
  have "driftDetected portfolio0 \<longleftrightarrow> (\<exists>h \<in> set (holdings portfolio0). \<bar>drift h\<bar> > 10)"
    using a by blast
  then show False
    by (simp add: driftDetected_def driftAlerts_def hardcoded_holdings)
qed

text \<open>
  C2, amended: for every portfolio, at the fixed threshold 2.5, the drift condition
  holds if and only if some holding has \<open>|drift|\<close> strictly greater than 2.5, and if and
  only if \<^verbatim>\<open>driftAlerts\<close> is not empty; the banner is rendered exactly when moreover the
  dashboard tab is active.
\<close>

theorem drift_detected_iff:
  "(driftDetected p \<longleftrightarrow> (\<exists>h \<in> set (holdings p). \<bar>drift h\<bar> > 2.5))
   \<and> (driftDetected p \<longleftrightarrow> driftAlerts p \<noteq> [])
   \<and> (alertBannerShown s \<longleftrightarrow>
        activeTab s = ''dashboard'' \<and> (\<exists>h \<in> set (holdings (portfolio s)). \<bar>drift h\<bar> > 2.5))"
  by (auto simp: alertBannerShown_def driftDetected_def driftAlerts_def filter_empty_conv)

text \<open>
  C3, as stated, fails: the alerts of the hardcoded portfolio are not in descending
  order of \<open>|drift|\<close> (AAPL's 3.0 and GOOGL's 2.7 come before BTC's 9.7), with or without
  the tie-break.
\<close>

theorem driftAlerts_sorted_counterexample:
  "\<not> sortedByAbsDriftDesc (driftAlerts portfolio0)
   \<and> \<not> sortedByAbsDriftThenSymbol (driftAlerts portfolio0)"
  by (simp add: sortedByAbsDriftDesc_def sortedByAbsDriftThenSymbol_def driftAlerts_def
      hardcoded_holdings)

lemma count_list_filter:
  "count_list (filter P xs) x = (if P x then count_list xs x else 0)"
  by (induction xs) auto

text \<open>
  C3, amended: the alerts are the holdings with \<open>|drift| > 2.5\<close>, each as often as it is
  held and no other; and when the holdings are given in descending order of \<open>|drift|\<close>
  (with or without the tie-break by symbol), the alerts are in that order too. Nothing is
  said of the order of the alerts when the holdings are given in another order.
\<close>

theorem driftAlerts_not_resorted:
  "count_list (driftAlerts p) h = (if \<bar>drift h\<bar> > 2.5 then count_list (holdings p) h else 0)
   \<and> (sortedByAbsDriftDesc (holdings p) \<longrightarrow> sortedByAbsDriftDesc (driftAlerts p))
   \<and> (sortedByAbsDriftThenSymbol (holdings p)
        \<longrightarrow> sortedByAbsDriftThenSymbol (driftAlerts p))"
  by (simp add: driftAlerts_def sortedByAbsDriftDesc_def sortedByAbsDriftThenSymbol_def
      sorted_wrt_filter count_list_filter)

theorem driftAlerts_not_resorted_witness:
  "sortedByAbsDriftDesc (holdings (portfolio0\<lparr>holdings := [btc, aapl, vbmfx, googl, eth, msft, spy]\<rparr>))
   \<and> sortedByAbsDriftThenSymbol
        (holdings (portfolio0\<lparr>holdings := [btc, aapl, vbmfx, googl, eth, msft, spy]\<rparr>))
   \<and> sortedByAbsDriftDesc
        (driftAlerts (portfolio0\<lparr>holdings := [btc, aapl, vbmfx, googl, eth, msft, spy]\<rparr>))
   \<and> sortedByAbsDriftThenSymbol
        (driftAlerts (portfolio0\<lparr>holdings := [btc, aapl, vbmfx, googl, eth, msft, spy]\<rparr>))
   \<and> count_list
        (driftAlerts (portfolio0\<lparr>holdings := [btc, aapl, vbmfx, googl, eth, msft, spy]\<rparr>)) btc
       = 1"
proof -
  have sorted_in:
    "sortedByAbsDriftDesc (holdings (portfolio0\<lparr>holdings := [btc, aapl, vbmfx, googl, eth, msft, spy]\<rparr>))"
    by (simp add: sortedByAbsDriftDesc_def hardcoded_holdings)
  have sorted_sym:
    "sortedByAbsDriftThenSymbol
       (holdings (portfolio0\<lparr>holdings := [btc, aapl, vbmfx, googl, eth, msft, spy]\<rparr>))"
    by (simp add: sortedByAbsDriftThenSymbol_def hardcoded_holdings)
  have held:
    "\<bar>drift btc\<bar> > 2.5
     \<and> count_list (holdings (portfolio0\<lparr>holdings := [btc, aapl, vbmfx, googl, eth, msft, spy]\<rparr>)) btc
       = 1"
    by (simp add: hardcoded_holdings)
  from driftAlerts_not_resorted
      [of "portfolio0\<lparr>holdings := [btc, aapl, vbmfx, googl, eth, msft, spy]\<rparr>" btc]
    sorted_in sorted_sym held
  show ?thesis by presburger
qed

section \<open>Totals and allocations of the hardcoded portfolio\<close>

text \<open>
  C4, as stated, fails: \<^verbatim>\<open>totalValue\<close> is the literal 125420.50, and the \<^verbatim>\<open>value\<close> fields
  of the seven holdings sum to 103791.
\<close>

theorem totalValue_counterexample:
  "totalValue portfolio0 \<noteq> holdingsValue portfolio0"
  by (simp add: holdingsValue_def hardcoded_holdings)

text \<open>
  C4, amended: in the hardcoded portfolio every holding's \<^verbatim>\<open>value\<close> is its quantity
  times its price; the \<^verbatim>\<open>value\<close> fields sum to 103791, and \<^verbatim>\<open>totalValue\<close> is the
  separate literal 125420.50, larger by 21629.50.
\<close>

theorem hardcoded_values:
  "list_all (\<lambda>h. value h = qty h * price h) (holdings portfolio0)
   \<and> holdingsValue portfolio0 = 103791
   \<and> totalValue portfolio0 = 125420.5
   \<and> totalValue portfolio0 - holdingsValue portfolio0 = 21629.5"
  by (simp add: holdingsValue_def hardcoded_holdings)

text \<open>
  C5, as stated, fails: \<^verbatim>\<open>current.stocks\<close> is the literal 35, and the stocks held
  (AAPL, MSFT, GOOGL) are worth 23021 of 125420.50, about 18.35 percent.
\<close>

theorem current_counterexample:
  "stocks (current portfolio0) \<noteq> spec_currentAllocation ''stocks'' portfolio0"
  by (simp add: spec_currentAllocation_def categoryValue_def hardcoded_holdings)

text \<open>
  C5, amended: the current-allocation map is the literal 35 / 28 / 22 / 15. Against the
  holdings' values over \<^verbatim>\<open>totalValue\<close>, its crypto and bonds entries agree to within
  half a percentage point, its stocks entry (35 against about 18.35) and its etfs entry
  (15 against about 14.21) do not; each holding's own \<^verbatim>\<open>allocation\<close> field is its
  value over \<^verbatim>\<open>totalValue\<close> in percent, to within 0.05.
\<close>

theorem hardcoded_current:
  "current portfolio0 = \<lparr>stocks = 35, crypto = 28, bonds = 22, etfs = 15\<rparr>
   \<and> 18.35 < spec_currentAllocation ''stocks'' portfolio0
   \<and> spec_currentAllocation ''stocks'' portfolio0 < 18.36
   \<and> \<bar>crypto (current portfolio0) - spec_currentAllocation ''crypto'' portfolio0\<bar> < 0.5
   \<and> \<bar>bonds (current portfolio0) - spec_currentAllocation ''bonds'' portfolio0\<bar> < 0.5
   \<and> 14.20 < spec_currentAllocation ''etfs'' portfolio0
   \<and> spec_currentAllocation ''etfs'' portfolio0 < 14.21
   \<and> list_all (\<lambda>h. \<bar>allocation h - value h / totalValue portfolio0 * 100\<bar> < 0.05)
         (holdings portfolio0)"
  by (simp add: spec_currentAllocation_def categoryValue_def hardcoded_holdings)

section \<open>Trades of the audit log\<close>

text \<open>
  C6, as stated, fails for lack of a tolerance that covers the data: the trades of the
  hardcoded entries are not self-funding. With a tolerance of 0 the first entry is out of
  tolerance, with a tolerance of 50 the second is.
\<close>

theorem cash_drag_counterexample:
  "\<not> withinCashDrag 0 (trades auditEntry1) \<and> \<not> withinCashDrag 50 (trades auditEntry2)"
  by (simp add: withinCashDrag_def netCash_def auditEntry1_def auditEntry2_def)

lemma rebalanceRun_eq:
  "rebalanceRun s =
     (case auditLog s of
        [] \<Rightarrow> Inl TypeError
      | e # _ \<Rightarrow>
          Inr (s\<lparr>isRebalancing := False,
                 rebalanceResult := Some \<lparr>trades_r = trades e, impact_r = impact e,
                                          confidence = aiConfidence e\<rparr>,
                 showRebalanceModal := True\<rparr>))"
  by (simp add: rebalanceRun_def handleRebalance_def rebalanceTimeout_def split: list.splits)

lemma rebalanceOutcome_eq:
  "rebalanceOutcome s =
     (case auditLog s of
        [] \<Rightarrow> Inl TypeError
      | e # _ \<Rightarrow> Inr (Some \<lparr>trades_r = trades e, impact_r = impact e,
                                confidence = aiConfidence e\<rparr>))"
  by (simp add: rebalanceOutcome_def rebalanceRun_eq split: list.splits)

text \<open>
  C6, amended: sum(BUY values) - sum(SELL values) is +25 for the trades of
  AL-20251018-001 and for the plan the rebalance action returns (the same trades), and
  -70 for the trades of AL-20251015-002; the component configures no tolerance, and the
  trade lists are all within a tolerance exactly when it is at least 70.
\<close>

theorem hardcoded_net_cash:
  "netCash (trades auditEntry1) = 25
   \<and> netCash (trades auditEntry2) = - 70
   \<and> (\<exists>r. rebalanceOutcome initialState = Inr (Some r) \<and> netCash (trades_r r) = 25)
   \<and> (withinCashDrag tol (trades auditEntry1) \<and> withinCashDrag tol (trades auditEntry2)
        \<longleftrightarrow> 70 \<le> tol)"
  by (auto simp add: withinCashDrag_def netCash_def auditEntry1_def auditEntry2_def
      rebalanceOutcome_eq initialState_def auditLog0_def)

section \<open>The rebalance action\<close>

text \<open>
  C7. Two runs of \<^verbatim>\<open>handleRebalance\<close> (the click and its callback) from states with the
  same audit log end alike: both throw, or both set the same trades, impact and
  confidence; on a non-empty audit log a run returns a result. Whatever else differs
  between the two states (tab, flags, an earlier result, pending callbacks) has no
  influence.
\<close>

theorem rebalance_deterministic:
  assumes "auditLog s = auditLog s'"
  shows "rebalanceOutcome s = rebalanceOutcome s'
    \<and> (auditLog s \<noteq> [] \<longrightarrow> (\<exists>r. rebalanceOutcome s = Inr (Some r)))"
  using assms by (auto simp: rebalanceOutcome_eq split: list.splits)

theorem rebalance_deterministic_witness:
  "auditLog initialState
     = auditLog (initialState\<lparr>activeTab := ''audit'', showRebalanceModal := True\<rparr>)
   \<and> auditLog initialState \<noteq> []
   \<and> rebalanceOutcome (initialState\<lparr>activeTab := ''audit'', showRebalanceModal := True\<rparr>)
      = Inr (Some \<lparr>trades_r = trades auditEntry1, impact_r = impact auditEntry1,
                    confidence = 0.94\<rparr>)"
proof -
  have same: "auditLog initialState
     = auditLog (initialState\<lparr>activeTab := ''audit'', showRebalanceModal := True\<rparr>)"
    by simp
  have out: "rebalanceOutcome initialState
     = Inr (Some \<lparr>trades_r = trades auditEntry1, impact_r = impact auditEntry1,
                    confidence = 0.94\<rparr>)"
    by (simp add: rebalanceOutcome_eq initialState_def auditLog0_def auditEntry1_def)
  have ne: "auditLog initialState \<noteq> []"
    by (simp add: initialState_def auditLog0_def)
  from rebalance_deterministic [OF same] out ne show ?thesis by simp
qed

section \<open>What the actions leave unchanged\<close>

lemma rebalanceTimeout_frame:
  "rebalanceTimeout s = Inr s' \<Longrightarrow> portfolio s' = portfolio s \<and> auditLog s' = auditLog s"
  by (auto simp: rebalanceTimeout_def split: list.splits)

lemma step_frame:
  "step a s = Inr s' \<Longrightarrow> portfolio s' = portfolio s \<and> auditLog s' = auditLog s"
  by (cases a)
     (auto simp: setActiveTab_def handleRebalance_def reviewLater_def executeRebalance_def
        split: if_splits dest: rebalanceTimeout_frame)

lemma run_frame:
  "run as s = Inr s' \<Longrightarrow> portfolio s' = portfolio s \<and> auditLog s' = auditLog s"
proof (induction as arbitrary: s)
  case Nil
  then show ?case by simp
next
  case (Cons a as)
  then obtain s1 where s1: "step a s = Inr s1" and rest: "run as s1 = Inr s'"
    by (auto split: sum.splits)
  from Cons.IH [OF rest] step_frame [OF s1] show ?case by simp
qed

lemma step_total:
  "auditLog s \<noteq> [] \<Longrightarrow> \<exists>s'. step a s = Inr s'"
  by (cases a) (auto simp: rebalanceTimeout_def split: list.splits)

lemma run_total:
  "auditLog s \<noteq> [] \<Longrightarrow> \<exists>s'. run as s = Inr s'"
proof (induction as arbitrary: s)
  case Nil
  then show ?case by simp
next
  case (Cons a as)
  from step_total [OF Cons.prems] obtain s1 where s1: "step a s = Inr s1" by blast
  with step_frame [OF s1] Cons.prems have "auditLog s1 \<noteq> []" by simp
  from Cons.IH [OF this] s1 show ?case by simp
qed

lemma planReady_reached:
  "run [ClickRebalanceNow, TimerFires] initialState = Inr planReadyState"
  by (simp add: planReadyState_def initialState_def auditLog0_def alertBannerShown_def
      driftDetected_def driftAlerts_def hardcoded_holdings handleRebalance_def
      rebalanceTimeout_def)

lemma execute_planReady:
  "step ClickExecuteRebalance planReadyState
     = Inr (planReadyState\<lparr>showRebalanceModal := False, activeTab := ''audit''\<rparr>)"
  by (simp add: planReadyState_def modalShown_def executeRebalance_def)

text \<open>
  C10. No sequence of UI actions changes the portfolio or the audit log: a run that ends
  without an exception leaves both as they were, a run on a non-empty audit log ends
  without an exception, and so every run from the initial state ends with the hardcoded
  portfolio and audit log. The rebalance action only copies the trades, the impact and
  the confidence of the first audit entry into the result.
\<close>

theorem ui_actions_frame:
  "(run as s = Inr s' \<longrightarrow> portfolio s' = portfolio s \<and> auditLog s' = auditLog s)
   \<and> (auditLog s \<noteq> [] \<longrightarrow> (\<exists>t. run as s = Inr t))
   \<and> (\<exists>t. run as initialState = Inr t \<and> portfolio t = portfolio0 \<and> auditLog t = auditLog0)
   \<and> (auditLog s = e # es \<longrightarrow>
        rebalanceOutcome s = Inr (Some \<lparr>trades_r = trades e, impact_r = impact e,
                                         confidence = aiConfidence e\<rparr>))"
proof (intro conjI)
  show "run as s = Inr s' \<longrightarrow> portfolio s' = portfolio s \<and> auditLog s' = auditLog s"
    using run_frame by blast
  show "auditLog s \<noteq> [] \<longrightarrow> (\<exists>t. run as s = Inr t)"
    using run_total by blast
  have "auditLog initialState \<noteq> []"
    by (simp add: initialState_def auditLog0_def)
  then obtain t where t: "run as initialState = Inr t"
    using run_total by blast
  from run_frame [OF t] have "portfolio t = portfolio0 \<and> auditLog t = auditLog0"
    by (simp add: initialState_def)
  with t show "\<exists>t. run as initialState = Inr t \<and> portfolio t = portfolio0 \<and> auditLog t = auditLog0"
    by blast
  show "auditLog s = e # es \<longrightarrow>
        rebalanceOutcome s = Inr (Some \<lparr>trades_r = trades e, impact_r = impact e,
                                         confidence = aiConfidence e\<rparr>)"
    by (simp add: rebalanceOutcome_eq)
qed

theorem ui_actions_frame_witness:
  "run [ClickRebalanceNow, ClickTab ''settings'', TimerFires, ClickExecuteRebalance,
        ClickTab ''dashboard'', ClickRebalanceNow, TimerFires, ClickReviewLater] initialState
     = Inr (planReadyState\<lparr>showRebalanceModal := False\<rparr>)
   \<and> portfolio (planReadyState\<lparr>showRebalanceModal := False\<rparr>) = portfolio0
   \<and> auditLog (planReadyState\<lparr>showRebalanceModal := False\<rparr>) = auditLog0
   \<and> auditLog initialState \<noteq> []"
proof -
  have r: "run [ClickRebalanceNow, ClickTab ''settings'', TimerFires, ClickExecuteRebalance,
        ClickTab ''dashboard'', ClickRebalanceNow, TimerFires, ClickReviewLater] initialState
     = Inr (planReadyState\<lparr>showRebalanceModal := False\<rparr>)"
    by (simp add: planReadyState_def initialState_def auditLog0_def alertBannerShown_def
      driftDetected_def driftAlerts_def hardcoded_holdings handleRebalance_def
      rebalanceTimeout_def modalShown_def executeRebalance_def reviewLater_def
      setActiveTab_def)
  have i: "portfolio initialState = portfolio0 \<and> auditLog initialState = auditLog0
    \<and> auditLog initialState \<noteq> []"
    by (simp add: initialState_def auditLog0_def)
  from r ui_actions_frame [of
      "[ClickRebalanceNow, ClickTab ''settings'', TimerFires, ClickExecuteRebalance,
        ClickTab ''dashboard'', ClickRebalanceNow, TimerFires, ClickReviewLater]"
      initialState "planReadyState\<lparr>showRebalanceModal := False\<rparr>"]
  have "portfolio (planReadyState\<lparr>showRebalanceModal := False\<rparr>) = portfolio initialState
    \<and> auditLog (planReadyState\<lparr>showRebalanceModal := False\<rparr>) = auditLog initialState"
    by blast
  with r i show ?thesis by metis
qed

section \<open>Status of audit entries\<close>

text \<open>
  C9, as stated, fails: the only request to execute that the component has, the button
  Execute Rebalance on the plan of the pending entry AL-20251018-001, raises no error.
  It closes the modal and opens the audit tab.
\<close>

theorem execute_no_error_counterexample:
  "run [ClickRebalanceNow, TimerFires] initialState = Inr planReadyState
   \<and> map status (auditLog planReadyState) = [''pending'', ''executed'']
   \<and> step ClickExecuteRebalance planReadyState
      = Inr (planReadyState\<lparr>showRebalanceModal := False, activeTab := ''audit''\<rparr>)"
  using planReady_reached execute_planReady
  by (simp add: planReadyState_def initialState_def auditLog0_def auditEntry1_def auditEntry2_def)

text \<open>
  C9, amended: Execute Rebalance never raises an error and never changes the audit log,
  and no sequence of UI actions changes the status of any audit entry; in particular
  AL-20251018-001 stays pending after its plan is executed.
\<close>

theorem status_never_changes:
  "auditLog (executeRebalance s) = auditLog s
   \<and> (\<exists>t. step ClickExecuteRebalance s = Inr t)
   \<and> (run as s = Inr s' \<longrightarrow> map status (auditLog s') = map status (auditLog s))"
  using run_frame [of as s s'] by (simp add: executeRebalance_def)

theorem status_never_changes_witness:
  "run [ClickRebalanceNow, TimerFires, ClickExecuteRebalance] initialState
     = Inr (planReadyState\<lparr>showRebalanceModal := False, activeTab := ''audit''\<rparr>)
   \<and> map status (auditLog (planReadyState\<lparr>showRebalanceModal := False, activeTab := ''audit''\<rparr>))
     = [''pending'', ''executed'']"
proof -
  have r: "run [ClickRebalanceNow, TimerFires, ClickExecuteRebalance] initialState
     = Inr (planReadyState\<lparr>showRebalanceModal := False, activeTab := ''audit''\<rparr>)"
    by (simp add: planReadyState_def initialState_def auditLog0_def alertBannerShown_def
      driftDetected_def driftAlerts_def hardcoded_holdings handleRebalance_def
      rebalanceTimeout_def modalShown_def executeRebalance_def)
  have "map status (auditLog initialState) = [''pending'', ''executed'']"
    by (simp add: initialState_def auditLog0_def auditEntry1_def auditEntry2_def)
  with r status_never_changes [of initialState
      "[ClickRebalanceNow, TimerFires, ClickExecuteRebalance]"
      "planReadyState\<lparr>showRebalanceModal := False, activeTab := ''audit''\<rparr>"]
  show ?thesis by simp
qed

section \<open>Integrity of the audit log\<close>

text \<open>
  C8, as stated, fails: no entry of the hardcoded audit log has a property other than
  id, timestamp, action, reason, aiConfidence, trades, status and impact. None carries a
  content hash or a link to a previous entry, and the component has no verification.
\<close>

theorem audit_entries_hash_counterexample:
  "\<not> (\<exists>e \<in> set auditLog0. \<exists>k \<in> set (map fst (ownProperties e)).
        k \<notin> set [''id'', ''timestamp'', ''action'', ''reason'', ''aiConfidence'',
                   ''trades'', ''status'', ''impact''])"
  by (simp add: auditLog0_def ownProperties_def)

text \<open>
  C8, amended: an audit entry has exactly the properties id, timestamp, action, reason,
  aiConfidence, trades, status and impact, and every entry is immutable: no sequence of
  UI actions edits, deletes or adds an entry, and not even a status changes, so every
  run from the initial state ends with the hardcoded audit log.
\<close>

theorem audit_entries_fixed:
  "map fst (ownProperties e)
     = [''id'', ''timestamp'', ''action'', ''reason'', ''aiConfidence'', ''trades'',
        ''status'', ''impact'']
   \<and> (run as s = Inr s' \<longrightarrow> auditLog s' = auditLog s)
   \<and> (\<exists>t. run as initialState = Inr t \<and> auditLog t = auditLog0)"
proof (intro conjI)
  show "map fst (ownProperties e)
     = [''id'', ''timestamp'', ''action'', ''reason'', ''aiConfidence'', ''trades'',
        ''status'', ''impact'']"
    by (simp add: ownProperties_def)
  show "run as s = Inr s' \<longrightarrow> auditLog s' = auditLog s"
    using run_frame by blast
  have "auditLog initialState \<noteq> []"
    by (simp add: initialState_def auditLog0_def)
  then obtain t where t: "run as initialState = Inr t"
    using run_total by blast
  from run_frame [OF t] have "auditLog t = auditLog0"
    by (simp add: initialState_def)
  with t show "\<exists>t. run as initialState = Inr t \<and> auditLog t = auditLog0"
    by blast
qed

theorem audit_entries_fixed_witness:
  "run [ClickTab ''audit'', ClickTab ''dashboard'', ClickRebalanceNow, TimerFires,
        ClickExecuteRebalance] initialState
     = Inr (planReadyState\<lparr>showRebalanceModal := False, activeTab := ''audit''\<rparr>)
   \<and> auditLog (planReadyState\<lparr>showRebalanceModal := False, activeTab := ''audit''\<rparr>)
     = auditLog0"
proof -
  have r: "run [ClickTab ''audit'', ClickTab ''dashboard'', ClickRebalanceNow, TimerFires,
        ClickExecuteRebalance] initialState
     = Inr (planReadyState\<lparr>showRebalanceModal := False, activeTab := ''audit''\<rparr>)"
    by (simp add: planReadyState_def initialState_def auditLog0_def alertBannerShown_def
      driftDetected_def driftAlerts_def hardcoded_holdings handleRebalance_def
      rebalanceTimeout_def modalShown_def executeRebalance_def setActiveTab_def)
  have i: "auditLog initialState = auditLog0"
    by (simp add: initialState_def)
  from r audit_entries_fixed [of auditEntry1
      "[ClickTab ''audit'', ClickTab ''dashboard'', ClickRebalanceNow, TimerFires,
        ClickExecuteRebalance]"
      initialState "planReadyState\<lparr>showRebalanceModal := False, activeTab := ''audit''\<rparr>"]
  have "auditLog (planReadyState\<lparr>showRebalanceModal := False, activeTab := ''audit''\<rparr>)
    = auditLog initialState"
    by blast
  with r i show ?thesis by metis
qed

end
